theory Spec2Isabelle
  imports Main
begin

section \<open>Errors\<close>

text \<open>
  Go errors as values.  \<open>ErrText\<close> is an error made by \<open>errors.New\<close> or by
  \<open>fmt.Errorf\<close> without a wrapped cause (and also an opaque error of a library: a
  context error, a network error, a driver error); \<open>ErrWrap p e\<close> is
  \<open>fmt.Errorf("p: %w", e)\<close>; \<open>ErrTwoFactorRequired\<close> is the package-level sentinel of
  client.go; \<open>APIError\<close> is the struct of client.go (Status, RequestID, Messages).
\<close>

datatype err =
    ErrText string
  | ErrWrap string err
  | ErrTwoFactorRequired
  | APIError int string "string list"

text \<open>Decimal printing (\<open>%d\<close>, \<open>strconv\<close>) and \<open>strings.Join\<close>.\<close>

definition digit_char :: "nat \<Rightarrow> char" where
  "digit_char d = char_of (48 + d)"

function string_of_nat :: "nat \<Rightarrow> string" where
  "string_of_nat n =
     (if n < 10 then [digit_char n] else string_of_nat (n div 10) @ [digit_char (n mod 10)])"
  by pat_completeness auto
termination
  by (relation "measure id") auto

definition string_of_int :: "int \<Rightarrow> string" where
  "string_of_int i = (if i < 0 then CHR ''-'' # string_of_nat (nat (- i)) else string_of_nat (nat i))"



section \<open>Received messages and the acknowledgment cursor\<close>

text \<open>\<open>ReceivedMessage\<close> and \<open>FetchResult\<close> of receive.go; an \<open>int64\<close> is an \<open>int\<close>
  (the code only compares identities, it never computes with them).\<close>

record ReceivedMessage =
  rm_PushoverID :: int
  rm_UMID :: string
  rm_Title :: string
  rm_Message :: string
  rm_App :: string
  rm_AID :: string
  rm_Icon :: string
  rm_Priority :: int
  rm_URL :: string
  rm_URLTitle :: string
  rm_Acked :: bool
  rm_HTML :: bool
  rm_Timestamp :: int

record FetchResult =
  Messages :: "ReceivedMessage list"
  LastMessageID :: int
  RequestID :: string




section \<open>The message store\<close>

text \<open>
  A \<open>time.Time\<close> is the instant it denotes, an \<open>int\<close> counted from Go's zero time, so
  that \<open>t.IsZero()\<close> is \<open>t = 0\<close> and \<open>t.UTC()\<close>, which keeps the instant, is \<open>t\<close>.
  A \<open>*time.Time\<close> is a \<open>time option\<close>.
\<close>

type_synonym time = int

text \<open>\<open>MessageRecord\<close> and \<open>SentRecord\<close> of the database layer.\<close>

record MessageRecord =
  mr_ID :: int
  mr_PushoverID :: int
  mr_UMID :: string
  mr_Title :: string
  mr_Message :: string
  mr_App :: string
  mr_AID :: string
  mr_Icon :: string
  mr_ReceivedAt :: time
  mr_SentAt :: "time option"
  mr_Priority :: int
  mr_URL :: string
  mr_Acked :: bool
  mr_HTML :: bool

record SentRecord =
  sr_ID :: int
  sr_Message :: string
  sr_Title :: string
  sr_Device :: string
  sr_Priority :: int
  sr_SentAt :: time
  sr_RequestID :: string

text \<open>A row of the table \<open>messages\<close> created by \<open>migrate\<close>: \<open>id INTEGER PRIMARY KEY\<close>,
  \<open>pushover_id INTEGER UNIQUE\<close>, and the other columns; \<open>acked\<close> and \<open>html\<close> are
  integer columns.\<close>

record message_row =
  col_id :: int
  col_pushover_id :: int
  col_umid :: string
  col_title :: string
  col_message :: string
  col_app :: string
  col_aid :: string
  col_icon :: string
  col_received_at :: time
  col_sent_at :: "time option"
  col_priority :: int
  col_url :: string
  col_acked :: int
  col_html :: int

text \<open>The \<open>*sql.DB\<close> handle: whether \<open>Close\<close> was called on it, and the two tables
  (rows of \<open>sent\<close> are sent records with their row id).  \<open>Store\<close> wraps the handle;
  a nil handle is \<open>None\<close>, and a nil \<open>*Store\<close> is \<open>None\<close> of \<open>Store option\<close>.\<close>

record DB =
  db_closed :: bool
  db_messages :: "message_row list"
  db_sent :: "SentRecord list"

record Store =
  sql :: "DB option"

text \<open>
  What the database does is outside the source.  Its failures are a parameter: for each
  call the store makes, the error the call returns, if any.  \<open>f_exec k\<close> and \<open>f_scan k\<close>
  are for the \<open>k\<close>-th \<open>ExecContext\<close> and the \<open>k\<close>-th \<open>Scan\<close> of one operation, from 0.
\<close>

record db_faults =
  f_begin :: "err option"
  f_prepare :: "err option"
  f_exec :: "nat \<Rightarrow> err option"
  f_commit :: "err option"
  f_query :: "err option"
  f_scan :: "nat \<Rightarrow> err option"
  f_rows_err :: "err option"

definition no_faults :: db_faults where
  "no_faults = \<lparr> f_begin = None, f_prepare = None, f_exec = (\<lambda>_. None), f_commit = None,
                 f_query = None, f_scan = (\<lambda>_. None), f_rows_err = None \<rparr>"

text \<open>A closed handle refuses every call with the error of \<open>database/sql\<close>.\<close>

definition errDBClosed :: err where
  "errDBClosed = ErrText ''sql: database is closed''"

definition BeginTx :: "DB \<Rightarrow> db_faults \<Rightarrow> err option" where
  "BeginTx db F = (if db_closed db then Some errDBClosed else f_begin F)"

definition ExecContext :: "DB \<Rightarrow> db_faults \<Rightarrow> nat \<Rightarrow> err option" where
  "ExecContext db F k = (if db_closed db then Some errDBClosed else f_exec F k)"

definition QueryContext :: "DB \<Rightarrow> db_faults \<Rightarrow> err option" where
  "QueryContext db F = (if db_closed db then Some errDBClosed else f_query F)"

definition boolToInt :: "bool \<Rightarrow> int" where
  "boolToInt v = (if v then 1 else 0)"

text \<open>\<open>Close\<close>: nothing to do on a nil store or handle; otherwise the handle is closed
  (and stays in the store: \<open>Close\<close> does not reset the field).  \<open>close_err\<close> is what
  \<open>sql.DB.Close\<close> returns.\<close>

definition Close :: "Store option \<Rightarrow> err option \<Rightarrow> err option \<times> Store option" where
  "Close s close_err =
     (if s = None \<or> sql (the s) = None then (None, s)
      else (close_err, Some ((the s)\<lparr> sql := Some ((the (sql (the s)))\<lparr> db_closed := True \<rparr>) \<rparr>)))"

subsection \<open>The upsert statement\<close>

text \<open>The thirteen values bound to the insert statement for one record, as a row
  whose \<open>id\<close> is still to be given.\<close>

definition insert_values :: "time \<Rightarrow> MessageRecord \<Rightarrow> message_row" where
  "insert_values received msg =
     \<lparr> col_id = 0,
       col_pushover_id = mr_PushoverID msg,
       col_umid = mr_UMID msg,
       col_title = mr_Title msg,
       col_message = mr_Message msg,
       col_app = mr_App msg,
       col_aid = mr_AID msg,
       col_icon = mr_Icon msg,
       col_received_at = received,
       col_sent_at = mr_SentAt msg,
       col_priority = mr_Priority msg,
       col_url = mr_URL msg,
       col_acked = boolToInt (mr_Acked msg),
       col_html = boolToInt (mr_HTML msg) \<rparr>"

text \<open>A fresh row id of an \<open>INTEGER PRIMARY KEY\<close>: one more than the largest in use.\<close>

definition next_rowid :: "int list \<Rightarrow> int" where
  "next_rowid ids = fold max ids 0 + 1"

text \<open>
  \<open>INSERT INTO messages (...) VALUES (...) ON CONFLICT(pushover_id) DO UPDATE SET ...\<close>:
  when a row has the \<open>pushover_id\<close> of the new values, its twelve other columns are set
  to the new values (\<open>excluded.*\<close>) and its \<open>id\<close> is kept; otherwise a row is added.
\<close>

definition exec_upsert :: "message_row \<Rightarrow> message_row list \<Rightarrow> message_row list" where
  "exec_upsert vals rows =
     (if col_pushover_id vals \<in> set (map col_pushover_id rows)
      then map (\<lambda>r. if col_pushover_id r = col_pushover_id vals
                     then vals\<lparr> col_id := col_id r \<rparr> else r) rows
      else rows @ [vals\<lparr> col_id := next_rowid (map col_id rows) \<rparr>])"

subsection \<open>PersistMessages\<close>

text \<open>
  The loop over the batch, inside the transaction: \<open>tx\<close> is the table as the transaction
  sees it, \<open>k\<close> the index of the record, \<open>now k\<close> what \<open>time.Now()\<close> reads there.  The
  result is the count, the error, and the table of the transaction.
\<close>

fun persist_loop ::
  "DB \<Rightarrow> db_faults \<Rightarrow> (nat \<Rightarrow> time) \<Rightarrow> MessageRecord list \<Rightarrow> nat \<Rightarrow> message_row list \<Rightarrow> int
     \<Rightarrow> int \<times> err option \<times> message_row list" where
  "persist_loop db F now [] k tx inserted = (inserted, None, tx)"
| "persist_loop db F now (msg # msgs) k tx inserted =
     (let received = (if mr_ReceivedAt msg = 0 then now k else mr_ReceivedAt msg) in
      case ExecContext db F k of
        Some e \<Rightarrow> (inserted, Some (ErrWrap ''insert message'' e), tx)
      | None \<Rightarrow> persist_loop db F now msgs (Suc k) (exec_upsert (insert_values received msg) tx)
                  (inserted + 1))"

text \<open>
  \<open>PersistMessages\<close> returns the count and the error, and here also the store after the
  call.  A transaction that is rolled back, or whose commit fails, leaves the table as
  it was; a commit installs the table of the transaction.
\<close>

definition PersistMessages ::
  "Store option \<Rightarrow> db_faults \<Rightarrow> (nat \<Rightarrow> time) \<Rightarrow> MessageRecord list
     \<Rightarrow> (int \<times> err option) \<times> Store option" where
  "PersistMessages s F now msgs =
     (if s = None \<or> sql (the s) = None then ((0, Some (ErrText ''database not initialized'')), s)
      else if length msgs = 0 then ((0, None), s)
      else
        let db = the (sql (the s)) in
        case BeginTx db F of
          Some e \<Rightarrow> ((0, Some (ErrWrap ''begin tx'' e)), s)
        | None \<Rightarrow>
            (case f_prepare F of
               Some e \<Rightarrow> ((0, Some (ErrWrap ''prepare insert'' e)), s)
             | None \<Rightarrow>
                 (case persist_loop db F now msgs 0 (db_messages db) 0 of
                    (inserted, Some e, tx) \<Rightarrow> ((inserted, Some e), s)
                  | (inserted, None, tx) \<Rightarrow>
                      (case f_commit F of
                         Some e \<Rightarrow> ((inserted, Some (ErrWrap ''commit messages'' e)), s)
                       | None \<Rightarrow>
                           ((inserted, None),
                            Some ((the s)\<lparr> sql := Some (db\<lparr> db_messages := tx \<rparr>) \<rparr>))))))"

subsection \<open>LogSent\<close>

definition LogSent :: "Store option \<Rightarrow> db_faults \<Rightarrow> time \<Rightarrow> SentRecord \<Rightarrow> err option \<times> Store option" where
  "LogSent s F now rec =
     (if s = None \<or> sql (the s) = None then (Some (ErrText ''database not initialized''), s)
      else
        let db = the (sql (the s));
            sentAt = (if sr_SentAt rec = 0 then now else sr_SentAt rec) in
        case ExecContext db F 0 of
          Some e \<Rightarrow> (Some (ErrWrap ''insert sent record'' e), s)
        | None \<Rightarrow>
            (None,
             Some ((the s)\<lparr> sql := Some (db\<lparr> db_sent := db_sent db @
               [rec\<lparr> sr_ID := next_rowid (map sr_ID (db_sent db)), sr_SentAt := sentAt \<rparr>] \<rparr>) \<rparr>)))"

subsection \<open>QueryMessages\<close>

text \<open>
  The operator \<open>LIKE\<close> of the database, on text without characters outside ASCII: in the
  pattern \<open>%\<close> stands for any run of characters and \<open>_\<close> for any one character; every
  other character stands for itself, letters without regard to case.
\<close>

definition lower_ascii :: "char \<Rightarrow> char" where
  "lower_ascii c =
     (if 65 \<le> (of_char c :: nat) \<and> (of_char c :: nat) \<le> 90 then char_of ((of_char c :: nat) + 32) else c)"

fun like_match :: "string \<Rightarrow> string \<Rightarrow> bool" where
  "like_match [] t = (t = [])"
| "like_match (p # ps) [] = (p = CHR ''%'' \<and> like_match ps [])"
| "like_match (p # ps) (c # cs) =
     (if p = CHR ''%'' then like_match ps (c # cs) \<or> like_match (p # ps) cs
      else if p = CHR ''_'' then like_match ps cs
      else lower_ascii p = lower_ascii c \<and> like_match ps cs)"

text \<open>The clauses of the \<open>WHERE\<close>, joined by \<open>AND\<close>: \<open>1=1\<close>, then the threshold when
  \<open>since\<close> is neither nil nor the zero time, then the search when it is not empty
  (\<open>fmt.Sprintf("%%%s%%", search)\<close> puts the search between two \<open>%\<close>).\<close>

definition where_clauses :: "time option \<Rightarrow> string \<Rightarrow> (message_row \<Rightarrow> bool) list" where
  "where_clauses since search =
     [\<lambda>r. True]
     @ (if since \<noteq> None \<and> the since \<noteq> 0 then [\<lambda>r. col_received_at r \<ge> the since] else [])
     @ (if search \<noteq> []
        then (let like = [CHR ''%''] @ search @ [CHR ''%'']
              in [\<lambda>r. like_match like (col_message r) \<or> like_match like (col_title r)])
        else [])"

text \<open>\<open>SELECT ... WHERE ... ORDER BY received_at DESC LIMIT ?\<close>: the rows that satisfy
  every clause, the latest first (rows of one instant in the order of the table), and
  of these the first \<open>limit\<close>.\<close>

definition select_messages :: "message_row list \<Rightarrow> (message_row \<Rightarrow> bool) list \<Rightarrow> int \<Rightarrow> message_row list" where
  "select_messages rows clauses limit =
     take (nat limit) (sort_key (\<lambda>r. - col_received_at r) (filter (\<lambda>r. list_all (\<lambda>c. c r) clauses) rows))"

text \<open>\<open>rows.Scan\<close> into a record.\<close>

definition scan_row :: "message_row \<Rightarrow> MessageRecord" where
  "scan_row r =
     \<lparr> mr_ID = col_id r,
       mr_PushoverID = col_pushover_id r,
       mr_UMID = col_umid r,
       mr_Title = col_title r,
       mr_Message = col_message r,
       mr_App = col_app r,
       mr_AID = col_aid r,
       mr_Icon = col_icon r,
       mr_ReceivedAt = col_received_at r,
       mr_SentAt = col_sent_at r,
       mr_Priority = col_priority r,
       mr_URL = col_url r,
       mr_Acked = (col_acked r = 1),
       mr_HTML = (col_html r = 1) \<rparr>"

fun scan_loop :: "db_faults \<Rightarrow> message_row list \<Rightarrow> nat \<Rightarrow> MessageRecord list \<Rightarrow> err + MessageRecord list" where
  "scan_loop F [] k results = Inr results"
| "scan_loop F (r # rs) k results =
     (case f_scan F k of
        Some e \<Rightarrow> Inl (ErrWrap ''scan history'' e)
      | None \<Rightarrow> scan_loop F rs (Suc k) (results @ [scan_row r]))"

definition QueryMessages ::
  "Store option \<Rightarrow> db_faults \<Rightarrow> int \<Rightarrow> time option \<Rightarrow> string \<Rightarrow> err + MessageRecord list" where
  "QueryMessages s F limit since search =
     (if s = None \<or> sql (the s) = None then Inl (ErrText ''database not initialized'')
      else
        let db = the (sql (the s));
            limit = (if limit \<le> 0 then 20 else limit);
            clauses = where_clauses since search in
        (case QueryContext db F of
           Some e \<Rightarrow> Inl (ErrWrap ''query history'' e)
         | None \<Rightarrow>
             (case scan_loop F (select_messages (db_messages db) clauses limit) 0 [] of
                Inl e \<Rightarrow> Inl e
              | Inr results \<Rightarrow>
                  (case f_rows_err F of
                     Some e \<Rightarrow> Inl (ErrWrap ''iterate history'' e)
                   | None \<Rightarrow> Inr results))))"

section \<open>From received messages to records\<close>

text \<open>\<open>time.Unix(sec, 0)\<close>: the instant \<open>sec\<close> seconds after 1970, in nanoseconds from
  the zero time (62135596800 seconds lie between the zero time and 1970).\<close>

definition Unix :: "int \<Rightarrow> time" where
  "Unix sec = (sec + 62135596800) * 1000000000"

text \<open>\<open>RecordsFromReceived\<close>; \<open>now k\<close> is what \<open>time.Now()\<close> reads for the \<open>k\<close>-th
  message.\<close>

definition record_of_received :: "time \<Rightarrow> ReceivedMessage \<Rightarrow> MessageRecord" where
  "record_of_received received msg =
     \<lparr> mr_ID = 0,
       mr_PushoverID = rm_PushoverID msg,
       mr_UMID = rm_UMID msg,
       mr_Title = rm_Title msg,
       mr_Message = rm_Message msg,
       mr_App = rm_App msg,
       mr_AID = rm_AID msg,
       mr_Icon = rm_Icon msg,
       mr_ReceivedAt = received,
       mr_SentAt = (if rm_Timestamp msg > 0 then Some (Unix (rm_Timestamp msg)) else None),
       mr_Priority = rm_Priority msg,
       mr_URL = rm_URL msg,
       mr_Acked = rm_Acked msg,
       mr_HTML = rm_HTML msg \<rparr>"

fun records_loop ::
  "(nat \<Rightarrow> time) \<Rightarrow> ReceivedMessage list \<Rightarrow> nat \<Rightarrow> MessageRecord list \<Rightarrow> MessageRecord list" where
  "records_loop now [] k records = records"
| "records_loop now (msg # msgs) k records =
     records_loop now msgs (Suc k) (records @ [record_of_received (now k) msg])"

definition RecordsFromReceived :: "(nat \<Rightarrow> time) \<Rightarrow> ReceivedMessage list \<Rightarrow> MessageRecord list" where
  "RecordsFromReceived now msgs = records_loop now msgs 0 []"

text \<open>\<open>PersistReceived\<close>: \<open>now_conv\<close> is the clock of the conversion, \<open>now_db\<close> the one
  of the store.\<close>

definition PersistReceived ::
  "Store option \<Rightarrow> db_faults \<Rightarrow> (nat \<Rightarrow> time) \<Rightarrow> (nat \<Rightarrow> time) \<Rightarrow> ReceivedMessage list
     \<Rightarrow> (int \<times> err option) \<times> Store option" where
  "PersistReceived store F now_conv now_db msgs =
     (if length msgs = 0 then ((0, None), store)
      else PersistMessages store F now_db (RecordsFromReceived now_conv msgs))"

section \<open>Configuration checks\<close>




section \<open>The ingestion cycle of the tool server\<close>






section \<open>The ingestion cycle of the messages command\<close>



section \<open>The transport\<close>

definition apiBaseURL :: string where
  "apiBaseURL = ''https://api.pushover.net/1''"

text \<open>The delay between two attempts, in seconds.\<close>

definition retryDelay :: nat where
  "retryDelay = 5"

definition maxConcurrentRequests :: nat where
  "maxConcurrentRequests = 2"

definition defaultRequestAttempts :: int where
  "defaultRequestAttempts = 2"

text \<open>
  A request: method, address, and the values of the query and of the form body as pairs
  in the order of their keys (their encoding is not modelled).  A response: its status
  and the bytes of its body.
\<close>

record Request =
  req_Method :: string
  req_URL :: string
  req_Query :: "(string \<times> string) list"
  req_Form :: "(string \<times> string) list"
  req_Header :: "(string \<times> string) list"

record Response =
  StatusCode :: int
  Body :: string

definition Header_Set :: "string \<Rightarrow> string \<Rightarrow> (string \<times> string) list \<Rightarrow> (string \<times> string) list" where
  "Header_Set k v h = (k, v) # filter (\<lambda>kv. fst kv \<noteq> k) h"

text \<open>The client: the four credentials, the capacity of the channel \<open>limiter\<close>
  (\<open>None\<close> for a nil channel), and the identifying header.\<close>

record Client =
  c_AppToken :: string
  c_UserKey :: string
  c_DeviceID :: string
  c_DeviceSecret :: string
  c_limiter :: "nat option"
  c_userAgent :: string

text \<open>\<open>NewClient\<close>; \<open>goos\<close> is \<open>runtime.GOOS\<close>.\<close>

definition NewClient :: "string \<Rightarrow> string \<Rightarrow> string \<Rightarrow> string \<Rightarrow> string \<Rightarrow> Client" where
  "NewClient goos appToken userKey deviceID deviceSecret =
     \<lparr> c_AppToken = appToken, c_UserKey = userKey, c_DeviceID = deviceID,
       c_DeviceSecret = deviceSecret, c_limiter = Some maxConcurrentRequests,
       c_userAgent = ''push-cli/1.0 ('' @ goos @ '')'' \<rparr>"

text \<open>
  What one attempt meets: \<open>ctx.Err()\<close> at the head of the iteration; in \<open>doOnce\<close>, what
  the \<open>select\<close> on the limiter yields (\<open>None\<close>: a slot; \<open>Some e\<close>: the context was done
  first) and what \<open>client.Do\<close> returns; \<open>ctx.Err()\<close> after a failure; and what
  \<open>waitRetry\<close> returns (\<open>None\<close>: the timer fired; \<open>Some e\<close>: the context was done
  first).  An exchange environment gives this for every attempt, counted from 1.
\<close>

record attempt_env =
  a_ctx_head :: "err option"
  a_slot :: "err option"
  a_exchange :: "err + Response"
  a_ctx_fail :: "err option"
  a_wait :: "err option"

type_synonym exchange_env = "nat \<Rightarrow> attempt_env"

text \<open>What an execution does, in order: a call of the builder in attempt \<open>i\<close>, an
  exchange of a request in attempt \<open>i\<close>, a delay of so many seconds after attempt \<open>i\<close>.\<close>

datatype event = EvBuild nat | EvExchange nat Request | EvWait nat nat

definition doOnce :: "Client \<Rightarrow> attempt_env \<Rightarrow> nat \<Rightarrow> Request \<Rightarrow> (err + Response) \<times> event list" where
  "doOnce c A i req =
     (if c_limiter c \<noteq> None \<and> a_slot A \<noteq> None then (Inl (the (a_slot A)), [])
      else (a_exchange A, [EvExchange i req]))"

definition waitRetry :: "attempt_env \<Rightarrow> nat \<Rightarrow> err option \<times> event list" where
  "waitRetry A i = (a_wait A, [EvWait i retryDelay])"

text \<open>The loop of \<open>do\<close>: \<open>attempt\<close> runs from 1 to \<open>attempts\<close>; \<open>build i\<close> is what the
  builder returns when attempt \<open>i\<close> calls it.\<close>

function do_loop ::
  "Client \<Rightarrow> exchange_env \<Rightarrow> (nat \<Rightarrow> err + Request) \<Rightarrow> nat \<Rightarrow> nat \<Rightarrow> err option \<Rightarrow> event list
     \<Rightarrow> (err + Response) \<times> event list" where
  "do_loop c W build attempts attempt lastErr tr =
     (if attempt \<le> attempts then
        (if a_ctx_head (W attempt) \<noteq> None then (Inl (the (a_ctx_head (W attempt))), tr)
         else
           (case build attempt of
              Inl e \<Rightarrow> (Inl e, tr @ [EvBuild attempt])
            | Inr req0 \<Rightarrow>
                (let req = req0\<lparr> req_Header := Header_Set ''User-Agent'' (c_userAgent c) (req_Header req0) \<rparr>;
                     once = doOnce c (W attempt) attempt req;
                     tr1 = tr @ [EvBuild attempt] @ snd once
                 in (case fst once of
                       Inr resp \<Rightarrow> (Inr resp, tr1)
                     | Inl e \<Rightarrow>
                         (if a_ctx_fail (W attempt) \<noteq> None
                          then (Inl (the (a_ctx_fail (W attempt))), tr1)
                          else if attempt < attempts
                          then (let w = waitRetry (W attempt) attempt
                                in (if fst w \<noteq> None then (Inl (the (fst w)), tr1 @ snd w)
                                    else do_loop c W build attempts (Suc attempt) (Some e) (tr1 @ snd w)))
                          else do_loop c W build attempts (Suc attempt) (Some e) tr1)))))
      else (if lastErr \<noteq> None then (Inl (the lastErr), tr)
            else (Inl (ErrText ''pushover: request failed''), tr)))"
  by pat_completeness auto
termination
  by (relation "measure (\<lambda>(c, W, build, attempts, attempt, lastErr, tr). Suc attempts - attempt)") auto

definition do ::
  "Client \<Rightarrow> exchange_env \<Rightarrow> (nat \<Rightarrow> err + Request) \<Rightarrow> int \<Rightarrow> (err + Response) \<times> event list" where
  "do c W build retries =
     (let attempts = (if retries \<le> 0 then 1 else nat retries)
      in do_loop c W build attempts 1 None [])"

subsection \<open>Error responses\<close>

text \<open>\<open>strings.TrimSpace\<close>, on text without characters outside ASCII.\<close>

definition is_space :: "char \<Rightarrow> bool" where
  "is_space ch = (ch = CHR 0x09 \<or> ch = CHR 0x0A \<or> ch = CHR 0x0B \<or> ch = CHR 0x0C \<or> ch = CHR 0x0D \<or> ch = CHR 0x20)"

definition TrimSpace :: "string \<Rightarrow> string" where
  "TrimSpace s = rev (dropWhile is_space (rev (dropWhile is_space s)))"

text \<open>The payload of an error response.  \<open>json.Unmarshal\<close> is a parameter: the payload
  it leaves when given the body (its error is ignored by the code).\<close>

record api_payload =
  p_Status :: int
  p_Request :: string
  p_Errors :: "string list"

definition decodeAPIError :: "(string \<Rightarrow> api_payload) \<Rightarrow> Response option \<Rightarrow> err" where
  "decodeAPIError unmarshal resp =
     (if resp = None then ErrText ''pushover API error: nil response''
      else if StatusCode (the resp) = 412 then ErrTwoFactorRequired
      else
        (let body = Body (the resp);
             payload0 = (if length body > 0 then unmarshal body
                         else \<lparr> p_Status = 0, p_Request = [], p_Errors = [] \<rparr>);
             payload1 = (if length (p_Errors payload0) = 0 \<and> length body > 0
                         then payload0\<lparr> p_Errors := [TrimSpace body] \<rparr> else payload0);
             payload2 = (if p_Status payload1 = 0
                         then payload1\<lparr> p_Status := StatusCode (the resp) \<rparr> else payload1)
         in APIError (p_Status payload2) (p_Request payload2) (p_Errors payload2)))"

definition ensureSendCredentials :: "Client \<Rightarrow> err option" where
  "ensureSendCredentials c =
     (if TrimSpace (c_AppToken c) = [] then Some (ErrText ''pushover: app token not configured'')
      else if TrimSpace (c_UserKey c) = [] then Some (ErrText ''pushover: user key not configured'')
      else None)"

definition ensureReceiveCredentials :: "Client \<Rightarrow> err option" where
  "ensureReceiveCredentials c =
     (case ensureSendCredentials c of
        Some e \<Rightarrow> Some e
      | None \<Rightarrow>
          if TrimSpace (c_DeviceID c) = [] \<or> TrimSpace (c_DeviceSecret c) = []
          then Some (ErrText ''pushover: device credentials missing'')
          else None)"

subsection \<open>The operations of the client\<close>

text \<open>The payloads of the successful responses, and the decoders of
  \<open>encoding/json\<close> as parameters (\<open>decodeJSON\<close> into each target type).\<close>

record fetch_payload =
  fp_Status :: int
  fp_Request :: string
  fp_Last :: int
  fp_Messages :: "ReceivedMessage list"

record DeviceInfo =
  di_ID :: string
  di_Name :: string

record LoginResponse =
  lr_Status :: int
  lr_Request :: string
  lr_Secret :: string
  lr_Devices :: "DeviceInfo list"

record DeviceRegistration =
  dr_Status :: int
  dr_Request :: string
  dr_ID :: string
  dr_Secret :: string
  dr_Name :: string

record SendResponse =
  sp_Status :: int
  sp_Request :: string
  sp_Receipt :: string
  sp_Errors :: "string list"

record json_codec =
  j_error :: "string \<Rightarrow> api_payload"
  j_fetch :: "string \<Rightarrow> err + fetch_payload"
  j_login :: "string \<Rightarrow> err + LoginResponse"
  j_device :: "string \<Rightarrow> err + DeviceRegistration"
  j_send :: "string \<Rightarrow> err + SendResponse"

text \<open>\<open>http.NewRequest\<close> with a form body and its content type (no error arises for
  the fixed methods and addresses of this client).\<close>

definition form_request :: "string \<Rightarrow> (string \<times> string) list \<Rightarrow> err + Request" where
  "form_request url form =
     Inr \<lparr> req_Method = ''POST'', req_URL = url, req_Query = [], req_Form = form,
           req_Header = Header_Set ''Content-Type'' ''application/x-www-form-urlencoded'' [] \<rparr>"

definition FetchMessages ::
  "Client \<Rightarrow> json_codec \<Rightarrow> exchange_env \<Rightarrow> (err + FetchResult) \<times> event list" where
  "FetchMessages c J W =
     (case ensureReceiveCredentials c of
        Some e \<Rightarrow> (Inl e, [])
      | None \<Rightarrow>
          (let r = do c W (\<lambda>_. Inr \<lparr> req_Method = ''GET'', req_URL = apiBaseURL @ ''/messages.json'',
                                     req_Query = [(''device_id'', c_DeviceID c), (''secret'', c_DeviceSecret c)],
                                     req_Form = [], req_Header = [] \<rparr>)
                     defaultRequestAttempts
           in (case fst r of
                 Inl e \<Rightarrow> (Inl e, snd r)
               | Inr resp \<Rightarrow>
                   (if StatusCode resp \<ge> 400 then (Inl (decodeAPIError (j_error J) (Some resp)), snd r)
                    else
                      (case j_fetch J (Body resp) of
                         Inl e \<Rightarrow> (Inl (ErrWrap ''decode fetch response'' e), snd r)
                       | Inr payload \<Rightarrow>
                           (Inr \<lparr> Messages = fp_Messages payload, LastMessageID = fp_Last payload,
                                  RequestID = fp_Request payload \<rparr>, snd r))))))"

definition DeleteMessages ::
  "Client \<Rightarrow> json_codec \<Rightarrow> exchange_env \<Rightarrow> int \<Rightarrow> err option \<times> event list" where
  "DeleteMessages c J W upToID =
     (case ensureReceiveCredentials c of
        Some e \<Rightarrow> (Some e, [])
      | None \<Rightarrow>
          (if upToID \<le> 0 then (Some (ErrText ''message id must be positive''), [])
           else
             (let endpoint = apiBaseURL @ ''/devices/'' @ c_DeviceID c @ ''/update_highest_message.json'';
                  r = do c W (\<lambda>_. form_request endpoint
                                     [(''message'', string_of_int upToID), (''secret'', c_DeviceSecret c)])
                        defaultRequestAttempts
              in (case fst r of
                    Inl e \<Rightarrow> (Some e, snd r)
                  | Inr resp \<Rightarrow>
                      (if StatusCode resp \<ge> 400 then (Some (decodeAPIError (j_error J) (Some resp)), snd r)
                       else (None, snd r))))))"

definition Login ::
  "Client \<Rightarrow> json_codec \<Rightarrow> exchange_env \<Rightarrow> string \<Rightarrow> string \<Rightarrow> string
     \<Rightarrow> (err + LoginResponse) \<times> event list" where
  "Login c J W email password twoFactorCode =
     (if email = [] \<or> password = [] then (Inl (ErrText ''email and password are required''), [])
      else
        (let form = (if twoFactorCode \<noteq> [] then [(''code'', twoFactorCode)] else [])
                    @ [(''email'', email), (''password'', password)];
             r = do c W (\<lambda>_. form_request (apiBaseURL @ ''/users/login.json'') form)
                   defaultRequestAttempts
         in (case fst r of
               Inl e \<Rightarrow> (Inl e, snd r)
             | Inr resp \<Rightarrow>
                 (if StatusCode resp \<ge> 400 then (Inl (decodeAPIError (j_error J) (Some resp)), snd r)
                  else
                    (case j_login J (Body resp) of
                       Inl e \<Rightarrow> (Inl (ErrWrap ''decode login response'' e), snd r)
                     | Inr payload \<Rightarrow>
                         (if lr_Secret payload = []
                          then (Inl (ErrText ''pushover login did not return a secret''), snd r)
                          else (Inr payload, snd r)))))))"

definition RegisterDevice ::
  "Client \<Rightarrow> json_codec \<Rightarrow> exchange_env \<Rightarrow> string \<Rightarrow> string
     \<Rightarrow> (err + DeviceRegistration) \<times> event list" where
  "RegisterDevice c J W secret name =
     (if secret = [] then (Inl (ErrText ''secret is required''), [])
      else if name = [] then (Inl (ErrText ''device name is required''), [])
      else
        (let r = do c W (\<lambda>_. form_request (apiBaseURL @ ''/devices.json'')
                                [(''name'', name), (''os'', ''O''), (''secret'', secret)])
                   defaultRequestAttempts
         in (case fst r of
               Inl e \<Rightarrow> (Inl e, snd r)
             | Inr resp \<Rightarrow>
                 (if StatusCode resp \<ge> 400 then (Inl (decodeAPIError (j_error J) (Some resp)), snd r)
                  else
                    (case j_device J (Body resp) of
                       Inl e \<Rightarrow> (Inl (ErrWrap ''decode device response'' e), snd r)
                     | Inr registration \<Rightarrow> (Inr registration, snd r))))))"

text \<open>\<open>Send\<close>; \<open>t.Unix()\<close> is the number of whole seconds from 1970 to the instant.\<close>

record SendParams =
  s_Message :: string
  s_Title :: string
  s_Device :: string
  s_Priority :: int
  s_URL :: string
  s_URLTitle :: string
  s_Sound :: string
  s_Timestamp :: time
  s_HTML :: bool
  s_Monospace :: bool

definition Time_Unix :: "time \<Rightarrow> int" where
  "Time_Unix t = t div 1000000000 - 62135596800"

definition Send ::
  "Client \<Rightarrow> json_codec \<Rightarrow> exchange_env \<Rightarrow> SendParams \<Rightarrow> (err + SendResponse) \<times> event list" where
  "Send c J W params =
     (case ensureSendCredentials c of
        Some e \<Rightarrow> (Inl e, [])
      | None \<Rightarrow>
          (if TrimSpace (s_Message params) = [] then (Inl (ErrText ''message cannot be empty''), [])
           else
             (let form =
                    (if s_Device params \<noteq> [] then [(''device'', s_Device params)] else [])
                    @ (if s_HTML params then [(''html'', ''1'')] else [])
                    @ [(''message'', s_Message params)]
                    @ (if s_Monospace params then [(''monospace'', ''1'')] else [])
                    @ (if s_Priority params \<noteq> 0 then [(''priority'', string_of_int (s_Priority params))] else [])
                    @ (if s_Sound params \<noteq> [] then [(''sound'', s_Sound params)] else [])
                    @ (if s_Timestamp params \<noteq> 0
                       then [(''timestamp'', string_of_int (Time_Unix (s_Timestamp params)))] else [])
                    @ (if s_Title params \<noteq> [] then [(''title'', s_Title params)] else [])
                    @ [(''token'', c_AppToken c)]
                    @ (if s_URL params \<noteq> [] then [(''url'', s_URL params)] else [])
                    @ (if s_URLTitle params \<noteq> [] then [(''url_title'', s_URLTitle params)] else [])
                    @ [(''user'', c_UserKey c)];
                  r = do c W (\<lambda>_. form_request (apiBaseURL @ ''/messages.json'') form)
                        defaultRequestAttempts
              in (case fst r of
                    Inl e \<Rightarrow> (Inl e, snd r)
                  | Inr resp \<Rightarrow>
                      (if StatusCode resp \<ge> 400 then (Inl (decodeAPIError (j_error J) (Some resp)), snd r)
                       else
                         (case j_send J (Body resp) of
                            Inl e \<Rightarrow> (Inl (ErrWrap ''decode send response'' e), snd r)
                          | Inr payload \<Rightarrow> (Inr payload, snd r)))))))"

subsection \<open>The limiter under concurrent calls\<close>

text \<open>
  Several callers run \<open>doOnce\<close> on one client.  A caller is outside \<open>doOnce\<close>, or waits
  in the \<open>select\<close>, or holds a slot and runs \<open>client.Do\<close>, or has returned: with the
  result of the exchange, or with the error of its context.
\<close>

datatype caller = Idle | Waiting | InFlight | Returned | Aborted

text \<open>The state: how many values the channel \<open>limiter\<close> holds, and where each caller is.\<close>

record limiter_state =
  ls_held :: nat
  ls_callers :: "caller list"

definition limiter_init :: "nat \<Rightarrow> limiter_state" where
  "limiter_init n = \<lparr> ls_held = 0, ls_callers = replicate n Idle \<rparr>"

text \<open>
  One step of one caller, for a channel of capacity \<open>cap\<close>: it enters \<open>doOnce\<close>; a send
  on the channel goes through while the channel is not full; the case \<open>ctx.Done()\<close> is
  taken (whatever the channel holds); \<open>client.Do\<close> returns and the deferred receive takes
  a value out of the channel.
\<close>

inductive limiter_step :: "nat \<Rightarrow> limiter_state \<Rightarrow> limiter_state \<Rightarrow> bool" for cap :: nat where
  enter:
    "i < length (ls_callers s) \<Longrightarrow> ls_callers s ! i \<in> {Idle, Returned, Aborted}
     \<Longrightarrow> limiter_step cap s (s\<lparr> ls_callers := (ls_callers s)[i := Waiting] \<rparr>)"
| acquire:
    "i < length (ls_callers s) \<Longrightarrow> ls_callers s ! i = Waiting \<Longrightarrow> ls_held s < cap
     \<Longrightarrow> limiter_step cap s (s\<lparr> ls_held := Suc (ls_held s), ls_callers := (ls_callers s)[i := InFlight] \<rparr>)"
| cancel:
    "i < length (ls_callers s) \<Longrightarrow> ls_callers s ! i = Waiting
     \<Longrightarrow> limiter_step cap s (s\<lparr> ls_callers := (ls_callers s)[i := Aborted] \<rparr>)"
| release:
    "i < length (ls_callers s) \<Longrightarrow> ls_callers s ! i = InFlight \<Longrightarrow> 0 < ls_held s
     \<Longrightarrow> limiter_step cap s (s\<lparr> ls_held := ls_held s - 1, ls_callers := (ls_callers s)[i := Returned] \<rparr>)"

inductive limiter_reach :: "nat \<Rightarrow> nat \<Rightarrow> limiter_state \<Rightarrow> bool" for cap :: nat and n :: nat where
  init: "limiter_reach cap n (limiter_init n)"
| step: "limiter_reach cap n s \<Longrightarrow> limiter_step cap s s' \<Longrightarrow> limiter_reach cap n s'"

definition in_flight :: "limiter_state \<Rightarrow> nat" where
  "in_flight s = length (filter (\<lambda>p. p = InFlight) (ls_callers s))"

section \<open>Concrete inputs\<close>



definition store_empty :: Store where
  "store_empty = \<lparr> sql = Some \<lparr> db_closed = False, db_messages = [], db_sent = [] \<rparr> \<rparr>"



text \<open>A database that fails the \<open>k\<close>-th \<open>ExecContext\<close> of an operation with a given
  error, the error of a cancelled context, and a store whose handle was closed.\<close>

definition faults_exec :: "nat \<Rightarrow> err \<Rightarrow> db_faults" where
  "faults_exec k e = no_faults\<lparr> f_exec := (\<lambda>i. if i = k then Some e else None) \<rparr>"

definition ctx_canceled :: err where
  "ctx_canceled = ErrText ''context canceled''"

definition store_closed :: "Store option" where
  "store_closed = snd (Close (Some store_empty) None)"

definition sent_hello :: SentRecord where
  "sent_hello = \<lparr> sr_ID = 0, sr_Message = ''hello'', sr_Title = [], sr_Device = [], sr_Priority = 0,
                   sr_SentAt = 0, sr_RequestID = ''r1'' \<rparr>"

section \<open>Properties\<close>

subsection \<open>The acknowledgment cursor\<close>












subsection \<open>The empty batch\<close>

text \<open>
  C10.  For an empty batch \<open>PersistReceived\<close> returns the count 0 and no error and
  leaves the store as it is, whatever the store and the database are; and so does
  \<open>PersistMessages\<close> on a store that is initialized, whatever the database would
  answer: it is not asked.
\<close>

theorem empty_batch:
  "PersistReceived store F now_conv now_db [] = ((0, None), store)
   \<and> (store \<noteq> None \<and> sql (the store) \<noteq> None
        \<longrightarrow> PersistMessages store F now_db [] = ((0, None), store))"
  by (simp add: PersistReceived_def PersistMessages_def)

theorem empty_batch_witness:
  "Some store_empty \<noteq> None \<and> sql (the (Some store_empty)) \<noteq> None
   \<and> PersistMessages (Some store_empty) (faults_exec 0 ctx_canceled) (\<lambda>k. 1) [] = ((0, None), Some store_empty)
   \<and> PersistReceived (Some store_empty) (faults_exec 0 ctx_canceled) (\<lambda>k. 1) (\<lambda>k. 1) [] = ((0, None), Some store_empty)"
  using empty_batch [of "Some store_empty" "faults_exec 0 ctx_canceled" "\<lambda>k. 1" "\<lambda>k. 1"]
  by (simp add: store_empty_def)

subsection \<open>A store that is not initialized, and a store that is closed\<close>

lemma store_closed_eq:
  "store_closed = Some \<lparr> sql = Some \<lparr> db_closed = True, db_messages = [], db_sent = [] \<rparr> \<rparr>"
  by (simp add: store_closed_def Close_def store_empty_def)

text \<open>
  C8 as amended.  On a store that was never opened (a nil store or a nil handle) the
  three operations fail with the error "database not initialized" and leave the store
  as it is.  On a store that was closed they do not: an empty batch is accepted with
  count 0 and no error, and every call that reaches the database returns the error of
  the closed handle, wrapped like any other failure of the database.
\<close>

theorem not_initialized:
  "(s = None \<or> sql (the s) = None \<longrightarrow>
      PersistMessages s F now msgs = ((0, Some (ErrText ''database not initialized'')), s)
    \<and> LogSent s F t rec = (Some (ErrText ''database not initialized''), s)
    \<and> QueryMessages s F limit since search = Inl (ErrText ''database not initialized''))
   \<and> (s \<noteq> None \<and> sql (the s) \<noteq> None \<and> db_closed (the (sql (the s))) \<longrightarrow>
      PersistMessages s F now [] = ((0, None), s)
    \<and> (msgs \<noteq> [] \<longrightarrow> PersistMessages s F now msgs = ((0, Some (ErrWrap ''begin tx'' errDBClosed)), s))
    \<and> LogSent s F t rec = (Some (ErrWrap ''insert sent record'' errDBClosed), s)
    \<and> QueryMessages s F limit since search = Inl (ErrWrap ''query history'' errDBClosed))"
  by (simp add: PersistMessages_def LogSent_def QueryMessages_def BeginTx_def ExecContext_def
      QueryContext_def Let_def)

theorem not_initialized_witness:
  "PersistMessages None no_faults (\<lambda>k. 1) [] = ((0, Some (ErrText ''database not initialized'')), None)
   \<and> LogSent (Some \<lparr> sql = None \<rparr>) no_faults 1 sent_hello
       = (Some (ErrText ''database not initialized''), Some \<lparr> sql = None \<rparr>)
   \<and> QueryMessages None no_faults 5 None ''error'' = Inl (ErrText ''database not initialized'')
   \<and> LogSent store_closed no_faults 1 sent_hello
       = (Some (ErrWrap ''insert sent record'' errDBClosed), store_closed)"
  using not_initialized [of None no_faults "\<lambda>k. 1" "[]" 1 sent_hello 5 None "''error''"]
        not_initialized [of "Some \<lparr> sql = None \<rparr>" no_faults "\<lambda>k. 1" "[]" 1 sent_hello 5 None "''error''"]
        not_initialized [of store_closed no_faults "\<lambda>k. 1" "[]" 1 sent_hello 5 None "''error''"]
  by (simp add: store_closed_eq)

text \<open>The claim as it is written fails on a closed store: the upsert of an empty batch
  returns no error at all, and the append of a sent record returns the wrapped error
  of the database.\<close>

theorem not_initialized_counterexample:
  "store_closed = snd (Close (Some store_empty) None)
   \<and> snd (fst (PersistMessages store_closed no_faults (\<lambda>k. 1) [])) = None
   \<and> fst (LogSent store_closed no_faults 1 sent_hello) = Some (ErrWrap ''insert sent record'' errDBClosed)
   \<and> ErrWrap ''insert sent record'' errDBClosed \<noteq> ErrText ''database not initialized''"
  by (simp add: store_closed_eq [symmetric] store_closed_def [symmetric])
     (simp add: store_closed_eq PersistMessages_def LogSent_def ExecContext_def)

end
